theory Spec2Isabelle
  imports Complex_Main "HOL-Library.Sublist" "HOL-Library.Multiset"
begin

section \<open>Python values\<close>

text \<open>
  The messages handled by \<^verbatim>\<open>core/tools.py\<close> are loosely typed Python values: a
  message is expected to be a dict with the keys \<^verbatim>\<open>role\<close> and \<^verbatim>\<open>content\<close>, but the
  code tests \<^verbatim>\<open>isinstance\<close> at every step, so the model keeps the values untyped.
  A dict is an association list in insertion order with string keys; \<^verbatim>\<open>d.get(k)\<close> is
  \<open>map_of d k\<close>. Strings are byte strings; the tag delimiters are ASCII, so matching
  on bytes and matching on code points find the same blocks.
\<close>

datatype pyval =
    PNone
  | PInt int
  | PStr string
  | PList "pyval list"
  | PDict "(string \<times> pyval) list"

text \<open>Truthiness, as \<^verbatim>\<open>if x:\<close> and \<^verbatim>\<open>not x\<close> read it.\<close>

fun py_truthy :: "pyval \<Rightarrow> bool" where
  "py_truthy PNone = False"
| "py_truthy (PInt n) = (n \<noteq> 0)"
| "py_truthy (PStr s) = (s \<noteq> [])"
| "py_truthy (PList xs) = (xs \<noteq> [])"
| "py_truthy (PDict d) = (d \<noteq> [])"

text \<open>\<^verbatim>\<open>d.get(key, default)\<close>\<close>

definition dict_get :: "(string \<times> pyval) list \<Rightarrow> string \<Rightarrow> pyval \<Rightarrow> pyval" where
  "dict_get d k dflt = (case map_of d k of Some v \<Rightarrow> v | None \<Rightarrow> dflt)"

section \<open>The block pattern\<close>

text \<open>
  \<^verbatim>\<open>re.compile(r"<Mnemosyne>.*?</Mnemosyne>", re.DOTALL)\<close>: the opening tag, then as
  few characters as possible (any character, newlines included), then the closing tag.
\<close>

definition open_tag :: string where
  "open_tag = ''<Mnemosyne>''"

definition close_tag :: string where
  "close_tag = ''</Mnemosyne>''"

text \<open>
  The lazy \<^verbatim>\<open>.*?</Mnemosyne>\<close>: the text up to and including the first closing tag,
  and what follows it; \<open>None\<close> when there is no closing tag.
\<close>

fun lazy_until_close :: "string \<Rightarrow> (string \<times> string) option" where
  "lazy_until_close [] = None"
| "lazy_until_close (c # cs) =
     (if prefix close_tag (c # cs) then Some (close_tag, drop (length close_tag) (c # cs))
      else map_option (\<lambda>(m, r). (c # m, r)) (lazy_until_close cs))"

text \<open>A match anchored at the start of the string: the matched block and the rest.\<close>

definition match_at :: "string \<Rightarrow> (string \<times> string) option" where
  "match_at s =
     (if prefix open_tag s
      then map_option (\<lambda>(m, r). (open_tag @ m, r)) (lazy_until_close (drop (length open_tag) s))
      else None)"

text \<open>
  The scanner behind \<^verbatim>\<open>findall\<close>, \<^verbatim>\<open>search\<close> and \<^verbatim>\<open>sub\<close>: left to right, the leftmost
  match at each point, matches never overlapping. A character where no match starts is
  literal text; after a match the scan goes on behind it.
\<close>

datatype seg = Lit char | Blk string

function regex_scan :: "string \<Rightarrow> seg list" where
  "regex_scan [] = []"
| "regex_scan (c # cs) =
     (case match_at (c # cs) of
        Some (m, r) \<Rightarrow> Blk m # regex_scan r
      | None \<Rightarrow> Lit c # regex_scan cs)"
  by pat_completeness auto
termination
proof (relation "measure length")
  show "wf (measure length)" by simp
next
  fix c :: char and cs :: string
  assume "match_at (c # cs) = None"
  show "(cs, c # cs) \<in> measure length" by simp
next
  fix c :: char and cs :: string and x2 :: "string \<times> string" and m r :: string
  assume hit: "match_at (c # cs) = Some x2" and x2: "(m, r) = x2"
  have shrink: "length r' \<le> length s" if "lazy_until_close s = Some (m', r')" for s m' r'
    using that
  proof (induction s arbitrary: m' r')
    case Nil
    then show ?case by simp
  next
    case (Cons a s)
    then show ?case
      by (fastforce split: if_splits)
  qed
  from hit x2 obtain m' where
    "prefix open_tag (c # cs)" and "lazy_until_close (drop (length open_tag) (c # cs)) = Some (m', r)"
    by (auto simp: match_at_def split: if_splits)
  then have "length r \<le> length (c # cs) - length open_tag"
    using shrink by fastforce
  then show "(r, c # cs) \<in> measure length"
    by (simp add: open_tag_def)
qed

text \<open>\<^verbatim>\<open>findall\<close>: the matched blocks, in order.\<close>

fun seg_blocks :: "seg list \<Rightarrow> string list" where
  "seg_blocks [] = []"
| "seg_blocks (Lit c # segs) = seg_blocks segs"
| "seg_blocks (Blk b # segs) = b # seg_blocks segs"

definition re_findall :: "string \<Rightarrow> string list" where
  "re_findall s = seg_blocks (regex_scan s)"

text \<open>\<^verbatim>\<open>search\<close>, read as a truth value: is there a match anywhere.\<close>

definition re_search :: "string \<Rightarrow> bool" where
  "re_search s = (re_findall s \<noteq> [])"

text \<open>
  \<^verbatim>\<open>sub(repl, s)\<close> with a replacement function: literal text is copied, each match is
  replaced by what the function returns for it.
\<close>

fun seg_sub :: "(string \<Rightarrow> string) \<Rightarrow> seg \<Rightarrow> string" where
  "seg_sub repl (Lit c) = [c]"
| "seg_sub repl (Blk b) = repl b"

definition re_sub :: "(string \<Rightarrow> string) \<Rightarrow> string \<Rightarrow> string" where
  "re_sub repl s = concat (map (seg_sub repl) (regex_scan s))"

section \<open>Tag retention: \<^verbatim>\<open>remove_mnemosyne_tags\<close>\<close>

text \<open>\<^verbatim>\<open>isinstance(content_item, dict) and content_item.get("role") == "user"\<close>\<close>

fun is_user :: "pyval \<Rightarrow> bool" where
  "is_user (PDict d) = (map_of d ''role'' = Some (PStr ''user''))"
| "is_user _ = False"

text \<open>\<^verbatim>\<open>content_item.get("content", "")\<close>\<close>

definition get_content :: "(string \<times> pyval) list \<Rightarrow> pyval" where
  "get_content d = dict_get d ''content'' (PStr [])"

text \<open>\<^verbatim>\<open>{"role": "user", "content": c}\<close>\<close>

definition user_message :: "pyval \<Rightarrow> pyval" where
  "user_message c = PDict [(''role'', PStr ''user''), (''content'', c)]"

text \<open>The body of the loop of the branch \<^verbatim>\<open>contexts_memory_len == 0\<close>.\<close>

fun clean_all :: "pyval \<Rightarrow> pyval" where
  "clean_all (PDict d) =
     (if is_user (PDict d) then
        (case get_content d of
           PStr original_text \<Rightarrow> user_message (PStr (re_sub (\<lambda>_. []) original_text))
         | _ \<Rightarrow> PDict d)
      else PDict d)"
| "clean_all content_item = content_item"

text \<open>The first loop of the branch \<^verbatim>\<open>contexts_memory_len > 0\<close>: the blocks of one item.\<close>

fun found_blocks :: "pyval \<Rightarrow> string list" where
  "found_blocks (PDict d) =
     (if is_user (PDict d) then
        (case get_content d of
           PStr original_text \<Rightarrow> re_findall original_text
         | _ \<Rightarrow> [])
      else [])"
| "found_blocks content_item = []"

definition all_mnemosyne_blocks :: "pyval list \<Rightarrow> string list" where
  "all_mnemosyne_blocks contents = concat (map found_blocks contents)"

text \<open>
  \<^verbatim>\<open>all_mnemosyne_blocks[-contexts_memory_len:]\<close> for a positive length: the last
  \<open>k\<close> entries, the whole list when it has at most \<open>k\<close>. The code turns the slice into
  a set; the model keeps the list and tests membership in its set.
\<close>

definition blocks_to_keep :: "int \<Rightarrow> string list \<Rightarrow> string list" where
  "blocks_to_keep contexts_memory_len blocks =
     drop (length blocks - nat contexts_memory_len) blocks"

definition replace_logic :: "string list \<Rightarrow> string \<Rightarrow> string" where
  "replace_logic keep block = (if block \<in> set keep then block else [])"

text \<open>The body of the second loop of the branch \<^verbatim>\<open>contexts_memory_len > 0\<close>.\<close>

fun clean_keep :: "string list \<Rightarrow> pyval \<Rightarrow> pyval" where
  "clean_keep keep (PDict d) =
     (if is_user (PDict d) then
        (case get_content d of
           PList parts \<Rightarrow> user_message (PList parts)
         | PStr original_text \<Rightarrow>
             (if re_search original_text
              then user_message (PStr (re_sub (replace_logic keep) original_text))
              else PDict d)
         | _ \<Rightarrow> PDict d)
      else PDict d)"
| "clean_keep keep content_item = content_item"

definition remove_mnemosyne_tags :: "pyval list \<Rightarrow> int \<Rightarrow> pyval list" where
  "remove_mnemosyne_tags contents contexts_memory_len =
     (if contexts_memory_len < 0 then contents
      else if contexts_memory_len = 0 then map clean_all contents
      else map (clean_keep (blocks_to_keep contexts_memory_len (all_mnemosyne_blocks contents)))
             contents)"

section \<open>Dropping old system messages: \<^verbatim>\<open>remove_system_content\<close>\<close>

fun is_system :: "pyval \<Rightarrow> bool" where
  "is_system (PDict d) = (map_of d ''role'' = Some (PStr ''system''))"
| "is_system _ = False"

text \<open>
  The argument is any Python value: the function tests \<^verbatim>\<open>isinstance(contents, list)\<close>
  itself and answers a value that is not a list with the empty list.
\<close>

fun remove_system_content :: "pyval \<Rightarrow> int \<Rightarrow> pyval" where
  "remove_system_content (PList contents) contexts_memory_len =
     (if contexts_memory_len < 0 then PList contents
      else
        let system_message_indices = [i. (i, msg) \<leftarrow> enumerate 0 contents, is_system msg];
            num_system_messages = length system_message_indices;
            indices_to_remove =
              (if int num_system_messages > contexts_memory_len
               then take (num_system_messages - nat contexts_memory_len) system_message_indices
               else [])
        in PList [msg. (i, msg) \<leftarrow> enumerate 0 contents, i \<notin> set indices_to_remove])"
| "remove_system_content contents contexts_memory_len = PList []"

section \<open>Session state: \<^verbatim>\<open>ConversationContextManager\<close>\<close>

text \<open>
  One entry per session: the event that opened it (absent when the entry was made by
  \<^verbatim>\<open>add_message\<close>) and the time of the last summary. The clock \<^verbatim>\<open>time.time()\<close> is an
  argument \<open>now\<close>. The lock is outside the model: every method runs as one step.
\<close>

record 'e conversation =
  event :: "'e option"
  last_summary_time :: real

record 'e context_manager =
  conversations :: "string \<rightharpoonup> 'e conversation"

definition init_conv :: "real \<Rightarrow> 'e context_manager \<Rightarrow> string \<Rightarrow> 'e \<Rightarrow> 'e context_manager" where
  "init_conv now self session_id ev =
     (if session_id \<in> dom (conversations self) then self
      else self\<lparr>conversations := (conversations self)
             (session_id \<mapsto> \<lparr>event = Some ev, last_summary_time = now\<rparr>)\<rparr>)"

definition add_message :: "real \<Rightarrow> 'e context_manager \<Rightarrow> string \<Rightarrow> 'e context_manager" where
  "add_message now self session_id =
     (if session_id \<notin> dom (conversations self)
      then self\<lparr>conversations := (conversations self)
             (session_id \<mapsto> \<lparr>event = None, last_summary_time = now\<rparr>)\<rparr>
      else self)"

definition get_summary_time :: "'e context_manager \<Rightarrow> string \<Rightarrow> real" where
  "get_summary_time self session_id =
     (case conversations self session_id of
        Some conv \<Rightarrow> last_summary_time conv
      | None \<Rightarrow> 0)"

definition update_summary_time :: "real \<Rightarrow> 'e context_manager \<Rightarrow> string \<Rightarrow> 'e context_manager" where
  "update_summary_time now self session_id =
     (case conversations self session_id of
        Some conv \<Rightarrow> self\<lparr>conversations := (conversations self)
                       (session_id \<mapsto> conv\<lparr>last_summary_time := now\<rparr>)\<rparr>
      | None \<Rightarrow> self)"

section \<open>The outside world of \<^verbatim>\<open>core/commands.py\<close>\<close>

text \<open>
  The vector store, the embedding provider and the file system are not part of the
  program. Each call into them is a field of the environment: what the call returns,
  or that it raises. Nothing is assumed about them. The embedding call and the insert
  take the index of the record they are made for, so that their answers may differ
  from call to call. \<open>create_collection\<close> stands for the two calls into
  \<^verbatim>\<open>core/initialization.py\<close> that set up the schema and the collection; only
  whether they raise is read. \<open>plugin_data_dir\<close> and \<open>mkdir_backups\<close> say whether
  the data directory is set and whether the backup directory could be made;
  \<open>write_backup\<close> whether the backup file was written.
\<close>

datatype 'a outcome = Raises | Returns 'a

record field_schema =
  field_name :: string
  field_params :: "(string \<times> pyval) list"

record env =
  manager_present :: bool
  is_connected :: "bool outcome"
  list_collections :: "unit outcome"
  provider_ready :: bool
  embedding_dim :: pyval
  get_dim :: "pyval outcome option"
  has_collection :: "bool outcome"
  get_collection :: "field_schema list option outcome"
  plugin_data_dir :: bool
  mkdir_backups :: bool
  query :: "nat \<Rightarrow> pyval list option outcome"
  write_backup :: "pyval list \<Rightarrow> bool"
  drop_collection :: "bool outcome"
  create_collection :: "unit outcome"
  get_embedding :: "nat \<Rightarrow> pyval \<Rightarrow> pyval outcome"
  insert :: "nat \<Rightarrow> pyval \<Rightarrow> pyval outcome"
  flush :: "unit outcome"
  current_time :: int

text \<open>The calls that change the store, in the order the command makes them.\<close>

datatype store_call = DropCollection | CreateCollection int | Insert pyval | Flush

text \<open>The replies the command yields, one constructor for each message.\<close>

datatype reply =
    ManagerMissing
  | ConnectFailed
  | ProviderNotReady
  | DimProbeFailed
  | DimInvalid
  | MismatchWarning pyval int
  | MigrationStarted pyval int
  | NoDataDir
  | BackupDirFailed
  | Exporting
  | ExportFailed
  | BackupWritten nat
  | BackupFailed
  | DropFailed
  | Dropped
  | Created int
  | Reembedding nat
  | Progress nat nat nat nat
  | MigrationDone nat nat int
  | MigrationDoneNoData
  | NoMigrationNeeded int
  | CreatingCollection
  | CollectionCreated int
  | InitFailed

record run =
  replies :: "reply list"
  calls :: "store_call list"

definition say :: "reply list \<Rightarrow> run \<Rightarrow> run" where
  "say rs r = r\<lparr>replies := replies r @ rs\<rparr>"

definition call :: "store_call \<Rightarrow> run \<Rightarrow> run" where
  "call c r = r\<lparr>calls := calls r @ [c]\<rparr>"

section \<open>Migration: \<^verbatim>\<open>init_memory_system_cmd_impl\<close>\<close>

text \<open>The connection check at the head of the command: False when it raises.\<close>

definition connect :: "env \<Rightarrow> bool" where
  "connect e =
     (case is_connected e of
        Raises \<Rightarrow> False
      | Returns True \<Rightarrow> True
      | Returns False \<Rightarrow> (case list_collections e of Raises \<Rightarrow> False | Returns _ \<Rightarrow> True))"

text \<open>
  Reading the provider's dimension: the attribute \<^verbatim>\<open>embedding_dim\<close> (\<open>PNone\<close> when
  it is missing), and \<^verbatim>\<open>get_dim()\<close> when the attribute is falsy and the method exists.
\<close>

definition probe_dim :: "env \<Rightarrow> pyval outcome" where
  "probe_dim e =
     (if \<not> py_truthy (embedding_dim e) then
        (case get_dim e of
           None \<Rightarrow> Returns (embedding_dim e)
         | Some d \<Rightarrow> d)
      else Returns (embedding_dim e))"

text \<open>
  The loop over the schema's fields: the \<^verbatim>\<open>dim\<close> parameter of the first field named
  \<^verbatim>\<open>embedding\<close>; \<open>None\<close> when no field has that name.
\<close>

fun find_old_dim :: "field_schema list \<Rightarrow> pyval option" where
  "find_old_dim [] = None"
| "find_old_dim (f # fs) =
     (if field_name f = ''embedding'' then Some (dict_get (field_params f) ''dim'' PNone)
      else find_old_dim fs)"

definition batch_size :: nat where
  "batch_size = 16384"

text \<open>
  The export loop. It ends when a query raises, returns nothing, or returns fewer rows
  than \<open>batch_size\<close>; a store that keeps returning full batches keeps it running, and
  then the value is \<open>None\<close>.
\<close>

partial_function (option) export_loop ::
    "(nat \<Rightarrow> pyval list option outcome) \<Rightarrow> pyval list \<Rightarrow> nat \<Rightarrow> pyval list outcome option" where
  "export_loop q all_records offset =
     (case q offset of
        Raises \<Rightarrow> Some Raises
      | Returns None \<Rightarrow> Some (Returns all_records)
      | Returns (Some batch_records) \<Rightarrow>
          if batch_records = [] then Some (Returns all_records)
          else if length batch_records < batch_size
            then Some (Returns (all_records @ batch_records))
            else export_loop q (all_records @ batch_records) (offset + length batch_records))"

declare export_loop.simps [code]

text \<open>The counters and effects of the re-embedding loop.\<close>

record loop_state =
  success_count :: nat
  fail_count :: nat
  progress :: "reply list"
  inserts :: "store_call list"

definition insert_data :: "env \<Rightarrow> (string \<times> pyval) list \<Rightarrow> pyval \<Rightarrow> pyval \<Rightarrow> pyval" where
  "insert_data e record content embedding =
     PDict [(''personality_id'', dict_get record ''personality_id'' (PStr [])),
            (''session_id'', dict_get record ''session_id'' (PStr [])),
            (''content'', content),
            (''embedding'', embedding),
            (''create_time'', dict_get record ''create_time'' (PInt (current_time e)))]"

text \<open>
  One round of the loop, for the record at index \<open>i\<close>. A record that is no dict has
  no \<^verbatim>\<open>get\<close>: the call raises and the handler counts a failure.
\<close>

fun reembed_record :: "env \<Rightarrow> nat \<Rightarrow> nat \<Rightarrow> pyval \<Rightarrow> loop_state \<Rightarrow> loop_state" where
  "reembed_record e record_count i (PDict record) st =
     (let content = dict_get record ''content'' (PStr []) in
      if \<not> py_truthy content then st
      else
        (case get_embedding e i content of
           Raises \<Rightarrow> st\<lparr>fail_count := fail_count st + 1\<rparr>
         | Returns embedding \<Rightarrow>
             if \<not> py_truthy embedding then st\<lparr>fail_count := fail_count st + 1\<rparr>
             else
               let row = insert_data e record content embedding;
                   st1 = st\<lparr>inserts := inserts st @ [Insert row]\<rparr>
               in (case insert e i row of
                     Raises \<Rightarrow> st1\<lparr>fail_count := fail_count st1 + 1\<rparr>
                   | Returns result \<Rightarrow>
                       let st2 = (if py_truthy result
                                  then st1\<lparr>success_count := success_count st1 + 1\<rparr>
                                  else st1\<lparr>fail_count := fail_count st1 + 1\<rparr>)
                       in if (i + 1) mod 10 = 0
                          then st2\<lparr>progress := progress st2 @
                                 [Progress (i + 1) record_count (success_count st2) (fail_count st2)]\<rparr>
                          else st2)))"
| "reembed_record e record_count i record st = st\<lparr>fail_count := fail_count st + 1\<rparr>"

fun reembed_loop :: "env \<Rightarrow> nat \<Rightarrow> nat \<Rightarrow> pyval list \<Rightarrow> loop_state \<Rightarrow> loop_state" where
  "reembed_loop e record_count i [] st = st"
| "reembed_loop e record_count i (record # records) st =
     reembed_loop e record_count (i + 1) records (reembed_record e record_count i record st)"

text \<open>Steps 6 to 8: drop, recreate, re-embed, flush; \<open>r\<close> is the run so far.\<close>

definition drop_and_reinsert :: "env \<Rightarrow> int \<Rightarrow> pyval list \<Rightarrow> run \<Rightarrow> run" where
  "drop_and_reinsert e current_dim old_records r =
     (case drop_collection e of
        Raises \<Rightarrow> say [InitFailed] (call DropCollection r)
      | Returns dropped \<Rightarrow>
          if \<not> dropped then say [DropFailed] (call DropCollection r)
          else
            let r1 = say [Dropped] (call DropCollection r) in
            (case create_collection e of
               Raises \<Rightarrow> say [InitFailed] (call (CreateCollection current_dim) r1)
             | Returns _ \<Rightarrow>
                 let r2 = say [Created current_dim] (call (CreateCollection current_dim) r1) in
                 if old_records \<noteq> [] then
                   let st = reembed_loop e (length old_records) 0 old_records
                              \<lparr>success_count = 0, fail_count = 0, progress = [], inserts = []\<rparr>;
                       r3 = \<lparr>replies = replies r2 @ [Reembedding (length old_records)] @ progress st,
                             calls = calls r2 @ inserts st @ [Flush]\<rparr>
                   in (case flush e of
                         Raises \<Rightarrow> say [InitFailed] r3
                       | Returns _ \<Rightarrow>
                           say [MigrationDone (success_count st) (fail_count st) current_dim] r3)
                 else say [MigrationDoneNoData] r2))"

text \<open>Steps 4 and 5 and what follows: export, backup, then the destructive part.\<close>

definition migrate :: "env \<Rightarrow> pyval \<Rightarrow> int \<Rightarrow> run option" where
  "migrate e old_dim current_dim =
     (let r = \<lparr>replies = [MigrationStarted old_dim current_dim], calls = []\<rparr> in
      if \<not> plugin_data_dir e then Some (say [NoDataDir] r)
      else if \<not> mkdir_backups e then Some (say [BackupDirFailed] r)
      else
        (case export_loop (query e) [] 0 of
           None \<Rightarrow> None
         | Some Raises \<Rightarrow> Some (say [Exporting, ExportFailed] r)
         | Some (Returns all_records) \<Rightarrow>
             if \<not> write_backup e all_records then Some (say [Exporting, BackupFailed] r)
             else Some (drop_and_reinsert e current_dim all_records
                          (say [Exporting, BackupWritten (length all_records)] r))))"

definition init_memory_system_cmd_impl :: "env \<Rightarrow> string option \<Rightarrow> run option" where
  "init_memory_system_cmd_impl e force =
     (if \<not> manager_present e then Some \<lparr>replies = [ManagerMissing], calls = []\<rparr>
      else if \<not> connect e then Some \<lparr>replies = [ConnectFailed], calls = []\<rparr>
      else if \<not> provider_ready e then Some \<lparr>replies = [ProviderNotReady], calls = []\<rparr>
      else
        (case probe_dim e of
           Raises \<Rightarrow> Some \<lparr>replies = [DimProbeFailed], calls = []\<rparr>
         | Returns (PInt current_dim) \<Rightarrow>
             if current_dim \<le> 0 then Some \<lparr>replies = [DimInvalid], calls = []\<rparr>
             else
               (case has_collection e of
                  Raises \<Rightarrow> Some \<lparr>replies = [InitFailed], calls = []\<rparr>
                | Returns True \<Rightarrow>
                    (case get_collection e of
                       Raises \<Rightarrow> Some \<lparr>replies = [InitFailed], calls = []\<rparr>
                     | Returns collection \<Rightarrow>
                         (case (case collection of None \<Rightarrow> None | Some schema_fields \<Rightarrow> find_old_dim schema_fields) of
                            Some old_dim \<Rightarrow>
                              if old_dim \<noteq> PInt current_dim then
                                if force \<noteq> Some ''--force''
                                then Some \<lparr>replies = [MismatchWarning old_dim current_dim], calls = []\<rparr>
                                else migrate e old_dim current_dim
                              else Some \<lparr>replies = [NoMigrationNeeded current_dim], calls = []\<rparr>
                          | None \<Rightarrow> Some \<lparr>replies = [NoMigrationNeeded current_dim], calls = []\<rparr>))
                | Returns False \<Rightarrow>
                    (case create_collection e of
                       Raises \<Rightarrow> Some \<lparr>replies = [CreatingCollection, InitFailed],
                                        calls = [CreateCollection current_dim]\<rparr>
                     | Returns _ \<Rightarrow> Some \<lparr>replies = [CreatingCollection, CollectionCreated current_dim],
                                          calls = [CreateCollection current_dim]\<rparr>))
         | Returns _ \<Rightarrow> Some \<lparr>replies = [DimInvalid], calls = []\<rparr>))"

text \<open>The run gets as far as comparing the collection's dimension with the provider's.\<close>

definition compares_dims :: "env \<Rightarrow> int \<Rightarrow> pyval \<Rightarrow> bool" where
  "compares_dims e current_dim old_dim =
     (manager_present e \<and> connect e \<and> provider_ready e \<and>
      probe_dim e = Returns (PInt current_dim) \<and> 0 < current_dim \<and>
      has_collection e = Returns True \<and>
      (case get_collection e of
         Returns (Some schema_fields) \<Rightarrow> find_old_dim schema_fields = Some old_dim
       | _ \<Rightarrow> False))"

text \<open>The records the re-embedding loop does not skip.\<close>

fun counted :: "pyval \<Rightarrow> bool" where
  "counted (PDict record) = py_truthy (dict_get record ''content'' (PStr []))"
| "counted record = True"

definition demo_records :: "pyval list" where
  "demo_records =
     [PDict [(''content'', PStr ''hello''), (''session_id'', PStr ''s1''), (''create_time'', PInt 7)],
      PDict [(''content'', PStr ''''), (''session_id'', PStr ''s1''), (''create_time'', PInt 8)],
      PDict [(''content'', PStr ''bad''), (''session_id'', PStr ''s2''), (''create_time'', PInt 9)]]"

definition demo_env :: env where
  "demo_env =
     \<lparr>manager_present = True, is_connected = Returns True, list_collections = Returns (),
      provider_ready = True, embedding_dim = PInt 4, get_dim = None,
      has_collection = Returns True,
      get_collection = Returns (Some [\<lparr>field_name = ''memory_id'', field_params = []\<rparr>,
                                      \<lparr>field_name = ''embedding'', field_params = [(''dim'', PInt 3)]\<rparr>]),
      plugin_data_dir = True, mkdir_backups = True,
      query = (\<lambda>offset. if offset = 0 then Returns (Some demo_records) else Returns (Some [])),
      write_backup = (\<lambda>_. True),
      drop_collection = Returns True, create_collection = Returns (),
      get_embedding = (\<lambda>i content. if content = PStr ''bad'' then Raises else Returns (PList [PInt 1])),
      insert = (\<lambda>i row. Returns (PInt 1)),
      flush = Returns (), current_time = 1000\<rparr>"

section \<open>Listing: \<^verbatim>\<open>list_records_cmd_impl\<close>\<close>

text \<open>
  What the command reads from outside. \<open>max_total_fetch_records\<close> and
  \<open>primary_field_name\<close> are the constants of \<^verbatim>\<open>core/constants.py\<close>;
  \<open>validate_session_id\<close> and \<open>safe_build_expression\<close> are the helpers of
  \<^verbatim>\<open>core/security_utils.py\<close>. The limit is an integer already.
  \<open>fromtimestamp\<close> is the platform's
  \<^verbatim>\<open>datetime.fromtimestamp(ts).strftime("%Y-%m-%d %H:%M:%S")\<close> on an integer: the
  text of the local time, or that the call raises.
\<close>

text \<open>
  What \<^verbatim>\<open>datetime.fromtimestamp\<close> does with an integer: it returns, it raises one of
  \<^verbatim>\<open>TypeError\<close>, \<^verbatim>\<open>ValueError\<close>, \<^verbatim>\<open>OSError\<close> (which the loop catches), or it raises
  \<^verbatim>\<open>OverflowError\<close> for an integer outside the platform's \<^verbatim>\<open>time_t\<close> (which the loop
  does not catch).
\<close>

datatype stamp = TimeText string | Rejected | Overflows

record list_env =
  store_connected :: bool
  unified_msg_origin :: string
  own_collection :: string
  collection_exists :: "string \<Rightarrow> bool outcome"
  validate_session_id :: "string \<Rightarrow> bool"
  safe_build_expression :: "string \<Rightarrow> string outcome"
  run_query :: "string \<Rightarrow> string \<Rightarrow> nat \<Rightarrow> pyval list option outcome"
  max_total_fetch_records :: nat
  primary_field_name :: string
  fromtimestamp :: "int \<Rightarrow> stamp"

text \<open>
  One entry of the listing, as the loop over \<^verbatim>\<open>display_records\<close> builds it: the
  number, the primary key, the time, the persona, the session and the preview of the
  content. The values are kept as they are; turning them into the text of the reply is
  string formatting, which cannot fail.
\<close>

datatype time_str = UnknownTime | FormattedTime string | InvalidTimestamp pyval

record display_line =
  line_number :: nat
  line_id :: pyval
  line_time :: time_str
  line_persona :: pyval
  line_session :: pyval
  line_preview :: string

datatype list_reply =
    StoreNotConnected
  | LimitOutOfRange
  | CollectionMissing string
  | SessionInvalid
  | ExpressionFailed
  | QueryFailed
  | NoRecords
  | CeilingWarning
  | Listing nat "display_line list"
  | ListingOrderUnknown
  | InternalError

text \<open>
  The defaults of the loop's \<^verbatim>\<open>get\<close> calls are Chinese texts; here they are their
  UTF-8 bytes: "unknown ID", "unknown session", "unknown persona", "content not
  available".
\<close>

definition unknown_id :: string where
  "unknown_id = [CHR 0xE6, CHR 0x9C, CHR 0xAA, CHR 0xE7, CHR 0x9F, CHR 0xA5] @ ''ID''"

definition unknown_session :: string where
  "unknown_session =
     [CHR 0xE6, CHR 0x9C, CHR 0xAA, CHR 0xE7, CHR 0x9F, CHR 0xA5,
      CHR 0xE4, CHR 0xBC, CHR 0x9A, CHR 0xE8, CHR 0xAF, CHR 0x9D]"

definition unknown_persona :: string where
  "unknown_persona =
     [CHR 0xE6, CHR 0x9C, CHR 0xAA, CHR 0xE7, CHR 0x9F, CHR 0xA5,
      CHR 0xE4, CHR 0xBA, CHR 0xBA, CHR 0xE6, CHR 0xA0, CHR 0xBC]"

definition content_unavailable :: string where
  "content_unavailable =
     [CHR 0xE5, CHR 0x86, CHR 0x85, CHR 0xE5, CHR 0xAE, CHR 0xB9, CHR 0xE4, CHR 0xB8, CHR 0x8D,
      CHR 0xE5, CHR 0x8F, CHR 0xAF, CHR 0xE7, CHR 0x94, CHR 0xA8]"

text \<open>
  Python counts and slices a string by characters. In UTF-8 a character is a byte that
  is no continuation byte (\<open>0x80\<close> to \<open>0xBF\<close>) and the continuation bytes behind it:
  \<open>char_count\<close> is \<^verbatim>\<open>len(s)\<close> and \<open>take_chars n\<close> is \<^verbatim>\<open>s[:n]\<close>.
\<close>

definition is_continuation :: "char \<Rightarrow> bool" where
  "is_continuation c = (128 \<le> (of_char c :: nat) \<and> (of_char c :: nat) < 192)"

definition char_count :: "string \<Rightarrow> nat" where
  "char_count s = length (filter (\<lambda>c. \<not> is_continuation c) s)"

fun take_chars :: "nat \<Rightarrow> string \<Rightarrow> string" where
  "take_chars n [] = []"
| "take_chars n (c # cs) =
     (if is_continuation c then c # take_chars n cs
      else (case n of 0 \<Rightarrow> [] | Suc m \<Rightarrow> c # take_chars m cs))"

text \<open>
  The sort key \<^verbatim>\<open>x.get("create_time", 0) or 0\<close>, when it is an integer: a missing
  key, \<^verbatim>\<open>None\<close> and every other falsy value give 0. \<open>None\<close> stands for a key that is
  no integer, and for a record that is no dict.
\<close>

fun create_time_key :: "pyval \<Rightarrow> int option" where
  "create_time_key (PDict x) =
     (case dict_get x ''create_time'' (PInt 0) of
        PInt t \<Rightarrow> Some t
      | v \<Rightarrow> if py_truthy v then None else Some 0)"
| "create_time_key x = None"

definition time_key :: "pyval \<Rightarrow> int" where
  "time_key x = (case create_time_key x of Some t \<Rightarrow> t | None \<Rightarrow> 0)"

text \<open>
  \<^verbatim>\<open>list.sort(key=..., reverse=True)\<close> on integer keys: a stable sort, descending,
  records with equal keys staying in their order. Python reverses the list, sorts it
  ascending and stable, and reverses it again.
\<close>

definition sort_reverse :: "('a \<Rightarrow> int) \<Rightarrow> 'a list \<Rightarrow> 'a list" where
  "sort_reverse key xs = rev (sort_key key (rev xs))"

text \<open>
  The \<^verbatim>\<open>try\<close> around the sort. With integer keys the sort cannot raise. With other
  keys Python compares values of other types or raises in the middle of the sort, and
  the order of the list is then not defined: the value is \<open>None\<close>.
\<close>

definition sort_fetched :: "pyval list \<Rightarrow> pyval list option" where
  "sort_fetched fetched_records =
     (if list_all (\<lambda>x. create_time_key x \<noteq> None) fetched_records
      then Some (sort_reverse time_key fetched_records)
      else None)"

text \<open>
  The time of an entry. \<^verbatim>\<open>None\<close> (also for a missing key) is the unknown time; an
  integer goes through \<open>fromtimestamp\<close>, and only its \<^verbatim>\<open>OverflowError\<close> leaves the
  loop; every other value makes \<^verbatim>\<open>fromtimestamp\<close> raise \<^verbatim>\<open>TypeError\<close>, which is
  caught.
\<close>

fun render_time :: "list_env \<Rightarrow> pyval \<Rightarrow> time_str outcome" where
  "render_time e PNone = Returns UnknownTime"
| "render_time e (PInt ts) =
     (case fromtimestamp e ts of
        TimeText s \<Rightarrow> Returns (FormattedTime s)
      | Rejected \<Rightarrow> Returns (InvalidTimestamp (PInt ts))
      | Overflows \<Rightarrow> Raises)"
| "render_time e ts = Returns (InvalidTimestamp ts)"

text \<open>
  \<^verbatim>\<open>content[:200] + ("..." if len(content) > 200 else "")\<close>: a value that is no string
  cannot be sliced, or cannot be joined with a string, and the expression raises.
\<close>

fun content_preview :: "pyval \<Rightarrow> string outcome" where
  "content_preview (PStr content) =
     Returns (take_chars 200 content @ (if char_count content > 200 then ''...'' else []))"
| "content_preview content = Raises"

text \<open>
  One round of the loop over \<^verbatim>\<open>display_records\<close>, for the entry number \<open>i\<close>. A
  record that is no dict has no \<^verbatim>\<open>get\<close>.
\<close>

fun render_record :: "list_env \<Rightarrow> nat \<Rightarrow> pyval \<Rightarrow> display_line outcome" where
  "render_record e i (PDict record) =
     (case render_time e (dict_get record ''create_time'' PNone) of
        Raises \<Rightarrow> Raises
      | Returns time_str \<Rightarrow>
          (case content_preview (dict_get record ''content'' (PStr content_unavailable)) of
             Raises \<Rightarrow> Raises
           | Returns preview \<Rightarrow>
               Returns \<lparr>line_number = i,
                        line_id = dict_get record (primary_field_name e) (PStr unknown_id),
                        line_time = time_str,
                        line_persona = dict_get record ''personality_id'' (PStr unknown_persona),
                        line_session = dict_get record ''session_id'' (PStr unknown_session),
                        line_preview = preview\<rparr>))"
| "render_record e i record = Raises"

fun render_records :: "list_env \<Rightarrow> nat \<Rightarrow> pyval list \<Rightarrow> display_line list outcome" where
  "render_records e i [] = Returns []"
| "render_records e i (record # records) =
     (case render_record e i record of
        Raises \<Rightarrow> Raises
      | Returns line \<Rightarrow>
          (case render_records e (i + 1) records of
             Raises \<Rightarrow> Raises
           | Returns lines \<Rightarrow> Returns (line # lines)))"

text \<open>
  The whole command. An exception that leaves the rendering loop reaches the outer
  handler, which answers with the internal error after the replies already given.
  Where the sort has left the list in an order Python does not define, what is
  displayed is not defined either, and the reply \<open>ListingOrderUnknown\<close> stands for
  whatever the command yields then.
\<close>

definition list_records_cmd_impl :: "list_env \<Rightarrow> string option \<Rightarrow> int \<Rightarrow> list_reply list" where
  "list_records_cmd_impl e collection_name limit =
     (if \<not> store_connected e then [StoreNotConnected]
      else
        let session_id = unified_msg_origin e;
            target_collection =
              (case collection_name of
                 None \<Rightarrow> own_collection e
               | Some c \<Rightarrow> if c = [] then own_collection e else c)
        in
        if limit \<le> 0 \<or> limit > 50 then [LimitOutOfRange]
        else
          (case collection_exists e target_collection of
             Raises \<Rightarrow> [InternalError]
           | Returns False \<Rightarrow> [CollectionMissing target_collection]
           | Returns True \<Rightarrow>
               if session_id \<noteq> [] \<and> \<not> validate_session_id e session_id then [SessionInvalid]
               else
                 (case (if session_id \<noteq> [] then safe_build_expression e session_id
                        else Returns (primary_field_name e @ '' >= 0'')) of
                    Raises \<Rightarrow> [ExpressionFailed]
                  | Returns expr \<Rightarrow>
                      (case run_query e target_collection expr (max_total_fetch_records e) of
                         Raises \<Rightarrow> [InternalError]
                       | Returns None \<Rightarrow> [QueryFailed]
                       | Returns (Some fetched_records) \<Rightarrow>
                           if fetched_records = [] then [NoRecords]
                           else
                             (if length fetched_records \<ge> max_total_fetch_records e
                              then [CeilingWarning] else []) @
                             (case sort_fetched fetched_records of
                                None \<Rightarrow> [ListingOrderUnknown]
                              | Some sorted_records \<Rightarrow>
                                  (case render_records e 1 (take (nat limit) sorted_records) of
                                     Raises \<Rightarrow> [InternalError]
                                   | Returns response_lines \<Rightarrow>
                                       [Listing (length fetched_records) response_lines]))))))"

text \<open>The command gets as far as a successful query that returns \<open>fetched_records\<close>.\<close>

definition fetches :: "list_env \<Rightarrow> string option \<Rightarrow> pyval list \<Rightarrow> bool" where
  "fetches e collection_name fetched_records =
     (let session_id = unified_msg_origin e;
          target_collection =
            (case collection_name of
               None \<Rightarrow> own_collection e
             | Some c \<Rightarrow> if c = [] then own_collection e else c)
      in store_connected e \<and>
         collection_exists e target_collection = Returns True \<and>
         (if session_id = [] then
            run_query e target_collection (primary_field_name e @ '' >= 0'')
              (max_total_fetch_records e) = Returns (Some fetched_records)
          else validate_session_id e session_id \<and>
            (case safe_build_expression e session_id of
               Raises \<Rightarrow> False
             | Returns expr \<Rightarrow>
                 run_query e target_collection expr (max_total_fetch_records e) =
                   Returns (Some fetched_records))))"

definition demo_list_env :: "pyval list \<Rightarrow> list_env" where
  "demo_list_env stored =
     \<lparr>store_connected = True, unified_msg_origin = ''s1'', own_collection = ''memories'',
      collection_exists = (\<lambda>c. Returns (c = ''memories'')),
      validate_session_id = (\<lambda>s. True),
      safe_build_expression = (\<lambda>s. Returns (''session_id == \"'' @ s @ ''\"'')),
      run_query = (\<lambda>c expr n. Returns (Some (take n stored))),
      max_total_fetch_records = 10000, primary_field_name = ''memory_id'',
      fromtimestamp = (\<lambda>ts. if - 9223372036854775808 \<le> ts \<and> ts < 9223372036854775808
                             then (if 0 \<le> ts \<and> ts < 100000000000
                                   then TimeText ''local time'' else Rejected)
                             else Overflows)\<rparr>"

text \<open>
  A record whose entry the loop can build: a dict whose content is a string (or
  missing) and whose \<^verbatim>\<open>create_time\<close>, when it is an integer, is inside the platform's
  \<^verbatim>\<open>time_t\<close>.
\<close>

fun renders :: "list_env \<Rightarrow> pyval \<Rightarrow> bool" where
  "renders e (PDict record) =
     ((case dict_get record ''content'' (PStr content_unavailable) of
         PStr content \<Rightarrow> True
       | _ \<Rightarrow> False) \<and>
      (case dict_get record ''create_time'' PNone of
         PInt ts \<Rightarrow> fromtimestamp e ts \<noteq> Overflows
       | _ \<Rightarrow> True))"
| "renders e record = False"

section \<open>Reading the result of a scan\<close>

text \<open>
  The pieces of literal text around the blocks of a scan: one piece before the first
  block, one between two blocks that follow each other, one after the last block
  (a piece is empty where two blocks touch).
\<close>

fun seg_gaps :: "seg list \<Rightarrow> string list" where
  "seg_gaps [] = [[]]"
| "seg_gaps (Lit c # segs) = (c # hd (seg_gaps segs)) # tl (seg_gaps segs)"
| "seg_gaps (Blk b # segs) = [] # seg_gaps segs"

text \<open>
  A text put together from its pieces and what stands for each block, in turn: piece,
  block, piece, block, ..., piece.
\<close>

fun weave :: "string list \<Rightarrow> string list \<Rightarrow> string" where
  "weave (g # gs) (b # bs) = g @ b @ weave gs bs"
| "weave gs [] = concat gs"
| "weave [] bs = concat bs"

text \<open>
  The specification's reading of the retention budget, in its own words: the \<open>k\<close>
  most-recently-appearing distinct block texts, the most recent first.
\<close>

definition spec_most_recent_distinct :: "nat \<Rightarrow> string list \<Rightarrow> string list" where
  "spec_most_recent_distinct k blocks = take k (rev (remdups blocks))"

section \<open>Facts about the block pattern\<close>

lemma seg_gaps_nonempty: "seg_gaps segs \<noteq> []"
  by (induction segs rule: seg_gaps.induct) auto

lemma lazy_until_close_split:
  "lazy_until_close s = Some (m, r) \<Longrightarrow> s = m @ r"
proof (induction s arbitrary: m r)
  case Nil
  then show ?case by simp
next
  case (Cons a s)
  show ?case
  proof (cases "prefix close_tag (a # s)")
    case True
    with Cons.prems have "m = close_tag" "r = drop (length close_tag) (a # s)" by auto
    moreover from True have "take (length close_tag) (a # s) = close_tag"
      by (metis append_eq_conv_conj prefix_def)
    ultimately show ?thesis
      by (metis append_take_drop_id)
  next
    case False
    with Cons.prems obtain m' where "lazy_until_close s = Some (m', r)" "m = a # m'"
      by auto
    with Cons.IH show ?thesis by simp
  qed
qed

lemma lazy_until_close_length:
  "lazy_until_close s = Some (m, r) \<Longrightarrow> length close_tag \<le> length s"
proof (induction s arbitrary: m r)
  case Nil
  then show ?case by simp
next
  case (Cons a s)
  then show ?case
    by (fastforce split: if_splits dest: prefix_length_le)
qed

lemma lazy_until_close_append:
  "lazy_until_close s = Some (m, r) \<Longrightarrow> lazy_until_close (s @ v) = Some (m, r @ v)"
proof (induction s arbitrary: m r)
  case Nil
  then show ?case by simp
next
  case (Cons a s)
  show ?case
  proof (cases "prefix close_tag (a # s)")
    case True
    then have p: "prefix close_tag (a # (s @ v))"
      using prefix_prefix [of close_tag "a # s" v] by simp
    from True have "length close_tag \<le> length (a # s)"
      by (rule prefix_length_le)
    then have "drop (length close_tag) ((a # s) @ v) = drop (length close_tag) (a # s) @ v"
      by (simp only: drop_append) simp
    then have d: "drop (length close_tag) (a # (s @ v)) = drop (length close_tag) (a # s) @ v"
      by simp
    from Cons.prems True have "m = close_tag" "r = drop (length close_tag) (a # s)"
      by auto
    with p d show ?thesis
      by (simp del: drop_append)
  next
    case False
    with Cons.prems obtain m' where inner: "lazy_until_close s = Some (m', r)" and m: "m = a # m'"
      by auto
    from inner have "length close_tag \<le> length s"
      by (rule lazy_until_close_length)
    with False have "\<not> prefix close_tag ((a # s) @ v)"
      by (metis prefix_def append_eq_append_conv_if append_take_drop_id le_SucI length_Cons take_all_iff)
    with Cons.IH [OF inner] m show ?thesis by simp
  qed
qed

lemma match_at_split: "match_at s = Some (m, r) \<Longrightarrow> s = m @ r"
  apply (auto simp: match_at_def split: if_splits dest!: lazy_until_close_split)
  by (metis append.assoc append_eq_conv_conj prefix_def)

lemma match_at_append:
  assumes "match_at s = Some (m, r)"
  shows "match_at (s @ v) = Some (m, r @ v)"
proof -
  from assms obtain m' where p: "prefix open_tag s"
    and l: "lazy_until_close (drop (length open_tag) s) = Some (m', r)" and m: "m = open_tag @ m'"
    by (auto simp: match_at_def split: if_splits)
  from p have "prefix open_tag (s @ v)" using prefix_prefix by blast
  moreover from p have "length open_tag \<le> length s" by (rule prefix_length_le)
  then have "drop (length open_tag) (s @ v) = drop (length open_tag) s @ v" by simp
  ultimately show ?thesis
    using lazy_until_close_append [OF l, of v] m by (simp add: match_at_def)
qed

lemma hd_seg_gaps_prefix: "prefix (hd (seg_gaps (regex_scan s))) s"
proof (induction s rule: regex_scan.induct)
  case 1
  then show ?case by simp
next
  case (2 c cs)
  then show ?case by (auto split: option.splits)
qed

lemma gap_scans_literal:
  "g \<in> set (seg_gaps (regex_scan s)) \<Longrightarrow> regex_scan g = map Lit g"
proof (induction s arbitrary: g rule: regex_scan.induct)
  case 1
  then show ?case by simp
next
  case (2 c cs)
  show ?case
  proof (cases "match_at (c # cs)")
    case (Some mr)
    then obtain m r where mr: "mr = (m, r)" by (cases mr)
    with Some "2.prems" have "g = [] \<or> g \<in> set (seg_gaps (regex_scan r))" by auto
    then show ?thesis
      using "2.IH"(2) [OF Some mr [symmetric]] by auto
  next
    case None
    let ?gs = "seg_gaps (regex_scan cs)"
    have ne: "?gs \<noteq> []" by (rule seg_gaps_nonempty)
    from None "2.prems" have "g = c # hd ?gs \<or> g \<in> set (tl ?gs)" by auto
    then show ?thesis
    proof
      assume g: "g = c # hd ?gs"
      from ne have "hd ?gs \<in> set ?gs" by simp
      then have tail: "regex_scan (hd ?gs) = map Lit (hd ?gs)"
        using "2.IH"(1) [OF None] by blast
      obtain rest where rest: "cs = hd ?gs @ rest"
        using hd_seg_gaps_prefix [of cs] by (auto simp: prefix_def)
      have "match_at (c # hd ?gs) = None"
      proof (rule ccontr)
        assume "match_at (c # hd ?gs) \<noteq> None"
        then obtain m r where "match_at (c # hd ?gs) = Some (m, r)" by auto
        from match_at_append [OF this, of rest] rest None show False by simp
      qed
      with g tail show ?thesis by simp
    next
      assume "g \<in> set (tl ?gs)"
      with ne have "g \<in> set ?gs" by (meson list.set_sel(2))
      then show ?thesis using "2.IH"(1) [OF None] by blast
    qed
  qed
qed

lemma seg_blocks_map_Lit: "seg_blocks (map Lit g) = []"
  by (induction g) auto

lemma gap_has_no_block:
  "g \<in> set (seg_gaps (regex_scan s)) \<Longrightarrow> \<not> re_search g"
  by (simp add: re_search_def re_findall_def gap_scans_literal seg_blocks_map_Lit)

lemma remdups_append_filter:
  "remdups (xs @ ys) = remdups (filter (\<lambda>x. x \<notin> set ys) xs) @ remdups ys"
  by (induction xs) auto

lemma most_recent_distinct_suffix:
  assumes "distinct (drop n xs)"
  shows "spec_most_recent_distinct (length xs - n) xs = rev (drop n xs)"
proof -
  have "remdups xs = remdups (take n xs @ drop n xs)" by simp
  also have "\<dots> = remdups (filter (\<lambda>x. x \<notin> set (drop n xs)) (take n xs)) @ drop n xs"
    using assms by (simp only: remdups_append_filter distinct_remdups_id)
  finally show ?thesis
    by (simp add: spec_most_recent_distinct_def)
qed

lemma card_blocks_to_keep: "0 < K \<Longrightarrow> card (set (blocks_to_keep K blocks)) \<le> nat K"
  unfolding blocks_to_keep_def
  by (rule order_trans [OF card_length]) simp


lemma length_remove_mnemosyne_tags:
  "length (remove_mnemosyne_tags contents K) = length contents"
  by (simp add: remove_mnemosyne_tags_def)

lemma remove_tags_zero_nth:
  "i < length contents \<Longrightarrow> remove_mnemosyne_tags contents 0 ! i = clean_all (contents ! i)"
  by (simp add: remove_mnemosyne_tags_def)

lemma remove_tags_pos_nth:
  "0 < K \<Longrightarrow> i < length contents \<Longrightarrow>
   remove_mnemosyne_tags contents K ! i =
     clean_keep (blocks_to_keep K (all_mnemosyne_blocks contents)) (contents ! i)"
  by (simp add: remove_mnemosyne_tags_def)

lemma scan_lossless: "concat (map (seg_sub (\<lambda>b. b)) (regex_scan s)) = s"
proof (induction s rule: regex_scan.induct)
  case 1
  then show ?case by simp
next
  case (2 c cs)
  then show ?case
    by (auto split: option.splits dest: match_at_split)
qed

lemma weave_Cons_gap: "weave ((c # g) # gs) bs = c # weave (g # gs) bs"
  by (cases bs) auto

lemma weave_scan:
  "weave (seg_gaps segs) (map f (seg_blocks segs)) = concat (map (seg_sub f) segs)"
proof (induction segs rule: seg_gaps.induct)
  case 1
  then show ?case by simp
next
  case (2 c segs)
  obtain g gs where "seg_gaps segs = g # gs"
    using seg_gaps_nonempty [of segs] by (cases "seg_gaps segs") auto
  with 2 show ?case by (simp add: weave_Cons_gap)
next
  case (3 b segs)
  then show ?case by simp
qed

lemma re_sub_weave:
  "re_sub f text = weave (seg_gaps (regex_scan text)) (map f (re_findall text))"
  by (simp add: re_sub_def re_findall_def weave_scan)

lemma text_weave:
  "weave (seg_gaps (regex_scan text)) (re_findall text) = text"
  using weave_scan [of "regex_scan text" "\<lambda>b. b"] by (simp add: re_findall_def scan_lossless)

lemma weave_all_empty: "\<forall>b \<in> set bs. b = [] \<Longrightarrow> weave gs bs = concat gs"
  by (induction gs bs rule: weave.induct) auto

lemma weave_erased: "weave gs (map (\<lambda>_. []) bs) = concat gs"
  by (rule weave_all_empty) simp

section \<open>Facts about the migration and the listing\<close>

lemma reembed_record_counts:
  "success_count (reembed_record e n i record st) + fail_count (reembed_record e n i record st) =
     success_count st + fail_count st + (if counted record then 1 else 0)"
  by (cases "record") (auto simp: Let_def split: outcome.splits)

lemma reembed_loop_counts:
  "success_count (reembed_loop e n i records st) + fail_count (reembed_loop e n i records st) =
     success_count st + fail_count st + length (filter counted records)"
proof (induction records arbitrary: i st)
  case Nil
  then show ?case by simp
next
  case (Cons r records)
  show ?case
    using Cons.IH [of "i + 1" "reembed_record e n i r st"]
      reembed_record_counts [of e n i r st]
    by simp
qed

lemma reembed_record_no_flush:
  "count_list (inserts (reembed_record e n i record st)) Flush = count_list (inserts st) Flush"
  by (cases "record") (auto simp: Let_def split: outcome.splits)

lemma reembed_loop_no_flush:
  "count_list (inserts (reembed_loop e n i records st)) Flush = count_list (inserts st) Flush"
  by (induction records arbitrary: i st) (simp_all add: reembed_record_no_flush)

lemma init_at_compare:
  assumes "compares_dims e d old_dim"
  shows "init_memory_system_cmd_impl e force =
           (if old_dim \<noteq> PInt d then
              if force \<noteq> Some ''--force''
              then Some \<lparr>replies = [MismatchWarning old_dim d], calls = []\<rparr>
              else migrate e old_dim d
            else Some \<lparr>replies = [NoMigrationNeeded d], calls = []\<rparr>)"
  using assms
  by (auto simp: compares_dims_def init_memory_system_cmd_impl_def
      split: outcome.splits option.splits)

lemma demo_export: "export_loop (query demo_env) [] 0 = Some (Returns demo_records)"
  by (subst export_loop.simps) (simp add: demo_env_def demo_records_def batch_size_def)

lemma demo_compares: "compares_dims demo_env 4 (PInt 3)"
  by (simp add: compares_dims_def demo_env_def connect_def probe_dim_def dict_get_def)

lemma demo_loop:
  "reembed_loop demo_env 3 0 demo_records
     \<lparr>success_count = 0, fail_count = 0, progress = [], inserts = []\<rparr> =
   \<lparr>success_count = 1, fail_count = 1, progress = [],
    inserts = [Insert (PDict [(''personality_id'', PStr []), (''session_id'', PStr ''s1''),
                 (''content'', PStr ''hello''), (''embedding'', PList [PInt 1]),
                 (''create_time'', PInt 7)])]\<rparr>"
  by (simp add: demo_records_def demo_env_def dict_get_def insert_data_def Let_def)

lemma sort_reverse_descending:
  "sorted_wrt (\<lambda>a b. key b \<le> key a) (sort_reverse key xs)"
proof -
  have "sorted (map key (sort_key key (rev xs)))"
    by (rule sorted_sort_key)
  then have "sorted_wrt (\<lambda>a b. key a \<le> key b) (sort_key key (rev xs))"
    by (simp add: sorted_map)
  then show ?thesis
    by (simp add: sort_reverse_def sorted_wrt_rev)
qed

lemma sort_reverse_mset: "mset (sort_reverse key xs) = mset xs"
  by (simp add: sort_reverse_def)

lemma sort_reverse_stable:
  "filter (\<lambda>x. key x = k) (sort_reverse key xs) = filter (\<lambda>x. key x = k) xs"
  by (simp add: sort_reverse_def rev_filter [symmetric] sort_key_stable)

lemma time_key_missing:
  "map_of x ''create_time'' = None \<or> map_of x ''create_time'' = Some PNone \<Longrightarrow>
   create_time_key (PDict x) = Some 0"
  by (auto simp: dict_get_def)

lemma time_key_integer:
  "map_of x ''create_time'' = Some (PInt t) \<Longrightarrow> time_key (PDict x) = t"
  by (simp add: time_key_def dict_get_def)

lemma set_sort_reverse: "set (sort_reverse key xs) = set xs"
  by (simp add: sort_reverse_def)

lemma render_record_ok:
  assumes "renders e r"
  shows "\<exists>line. render_record e i r = Returns line"
proof (cases r)
  case (PDict d)
  with assms obtain content where c: "dict_get d ''content'' (PStr content_unavailable) = PStr content"
    by (auto split: pyval.splits)
  from assms PDict have "render_time e (dict_get d ''create_time'' PNone) \<noteq> Raises"
    by (cases "dict_get d ''create_time'' PNone") (auto split: stamp.splits)
  then obtain ts where "render_time e (dict_get d ''create_time'' PNone) = Returns ts"
    by (cases "render_time e (dict_get d ''create_time'' PNone)") auto
  with c PDict show ?thesis by simp
qed (use assms in auto)

lemma render_record_fails:
  assumes "\<not> renders e r"
  shows "render_record e i r = Raises"
proof (cases r)
  case (PDict d)
  show ?thesis
  proof (cases "dict_get d ''create_time'' PNone")
    case (PInt ts)
    with assms PDict show ?thesis
      by (cases "dict_get d ''content'' (PStr content_unavailable)")
        (auto split: stamp.splits)
  qed (use assms PDict in \<open>cases "dict_get d ''content'' (PStr content_unavailable)"; simp\<close>)+
qed simp_all

lemma render_records_ok:
  "list_all (renders e) rs \<Longrightarrow>
   \<exists>lines. render_records e i rs = Returns lines \<and> length lines = length rs"
proof (induction rs arbitrary: i)
  case Nil
  then show ?case by simp
next
  case (Cons r rs)
  from Cons.prems obtain line where "render_record e i r = Returns line"
    using render_record_ok [of e r i] by auto
  moreover from Cons.prems obtain lines where
    "render_records e (i + 1) rs = Returns lines" "length lines = length rs"
    using Cons.IH [of "i + 1"] by auto
  ultimately show ?case by simp
qed

section \<open>Tag retention\<close>

text \<open>
  C1, as the code has it. For a positive budget \<open>K\<close> the code keeps the texts of the
  last \<open>K\<close> block occurrences of the user-role plain-text messages (of all of them
  when there are at most \<open>K\<close>). In a user-role plain-text message that holds a block,
  the text is its pieces and blocks in turn, and the result has the same pieces with
  every block whose text is kept left as it is and every other block replaced by the
  empty string. The kept texts are at most \<open>K\<close>; when there are more than \<open>K\<close>
  blocks and the last \<open>K\<close> occurrences are pairwise distinct they are exactly the
  \<open>K\<close> most-recently-appearing distinct block texts.
\<close>

theorem retention_keeps_trailing_slice:
  assumes "0 < K" and "i < length contents" and "contents ! i = PDict d"
    and "is_user (PDict d)" and "get_content d = PStr text" and "re_search text"
  shows "let all_blocks = all_mnemosyne_blocks contents;
             keep = drop (length all_blocks - nat K) all_blocks;
             gaps = seg_gaps (regex_scan text)
         in text = weave gaps (re_findall text) \<and>
            remove_mnemosyne_tags contents K ! i =
              user_message (PStr (weave gaps
                (map (\<lambda>b. if b \<in> set keep then b else []) (re_findall text)))) \<and>
            card (set keep) \<le> nat K \<and>
            (nat K < length all_blocks \<and> distinct keep \<longrightarrow>
               set keep = set (spec_most_recent_distinct (nat K) all_blocks) \<and>
               card (set keep) = nat K)"
proof -
  let ?all = "all_mnemosyne_blocks contents"
  let ?keep = "drop (length ?all - nat K) ?all"
  have out: "remove_mnemosyne_tags contents K ! i =
      user_message (PStr (re_sub (replace_logic ?keep) text))"
    using assms by (simp add: remove_tags_pos_nth blocks_to_keep_def)
  have rl: "replace_logic ?keep = (\<lambda>b. if b \<in> set ?keep then b else [])"
    by (simp add: replace_logic_def fun_eq_iff)
  have card_le: "card (set ?keep) \<le> nat K"
    using card_blocks_to_keep [OF assms(1), of ?all] by (simp add: blocks_to_keep_def)
  have exactly: "set ?keep = set (spec_most_recent_distinct (nat K) ?all) \<and> card (set ?keep) = nat K"
    if "nat K < length ?all" and "distinct ?keep"
  proof -
    from that(1) have len: "length ?all - (length ?all - nat K) = nat K" by simp
    from most_recent_distinct_suffix [OF that(2)] len
    have "spec_most_recent_distinct (nat K) ?all = rev ?keep" by simp
    moreover from that have "card (set ?keep) = nat K"
      by (simp add: distinct_card)
    ultimately show ?thesis by simp
  qed
  have shaped: "remove_mnemosyne_tags contents K ! i =
      user_message (PStr (weave (seg_gaps (regex_scan text))
        (map (\<lambda>b. if b \<in> set ?keep then b else []) (re_findall text))))"
    using out rl by (simp add: re_sub_weave)
  show ?thesis
    unfolding Let_def using shaped card_le exactly text_weave [symmetric, of "text"] by blast
qed

theorem retention_keeps_trailing_slice_witness:
  "remove_mnemosyne_tags
     [PDict [(''role'', PStr ''user''), (''content'', PStr ''<Mnemosyne>A</Mnemosyne> hi'')],
      PDict [(''role'', PStr ''assistant''), (''content'', PStr ''ok'')],
      PDict [(''role'', PStr ''user''),
             (''content'', PStr ''<Mnemosyne>B</Mnemosyne> <Mnemosyne>C</Mnemosyne> bye'')]] 1 ! 2 =
     PDict [(''role'', PStr ''user''), (''content'', PStr '' <Mnemosyne>C</Mnemosyne> bye'')] \<and>
   set (spec_most_recent_distinct 1
     [''<Mnemosyne>A</Mnemosyne>'', ''<Mnemosyne>B</Mnemosyne>'', ''<Mnemosyne>C</Mnemosyne>'']) =
     {''<Mnemosyne>C</Mnemosyne>''}"
proof -
  let ?d = "[(''role'', PStr ''user''),
             (''content'', PStr ''<Mnemosyne>B</Mnemosyne> <Mnemosyne>C</Mnemosyne> bye'')]"
  let ?t = "''<Mnemosyne>B</Mnemosyne> <Mnemosyne>C</Mnemosyne> bye''"
  let ?ex = "[PDict [(''role'', PStr ''user''), (''content'', PStr ''<Mnemosyne>A</Mnemosyne> hi'')],
      PDict [(''role'', PStr ''assistant''), (''content'', PStr ''ok'')],
      PDict ?d]"
  have c: "get_content ?d = PStr ?t"
    by (simp add: get_content_def dict_get_def)
  have u: "is_user (PDict ?d)"
    by simp
  have s: "re_search ?t"
    by code_simp
  have a: "all_mnemosyne_blocks ?ex =
      [''<Mnemosyne>A</Mnemosyne>'', ''<Mnemosyne>B</Mnemosyne>'', ''<Mnemosyne>C</Mnemosyne>'']"
    by code_simp
  have g: "seg_gaps (regex_scan ?t) = ['''', '' '', '' bye'']"
    by code_simp
  have f: "re_findall ?t = [''<Mnemosyne>B</Mnemosyne>'', ''<Mnemosyne>C</Mnemosyne>'']"
    by code_simp
  have pos: "(0::int) < 1" and idx: "(2::nat) < length ?ex" and at: "?ex ! 2 = PDict ?d"
    by simp_all
  show ?thesis
    using retention_keeps_trailing_slice [OF pos idx at u c s]
    by (simp add: a g f Let_def user_message_def del: regex_scan.simps)
qed

text \<open>
  With the blocks \<open>A\<close>, \<open>B\<close>, \<open>B\<close> and the budget 2, the two most recent distinct
  texts are \<open>B\<close> and \<open>A\<close>, but the last two occurrences are both \<open>B\<close>:
  block \<open>A\<close> is erased.
\<close>

theorem retention_counterexample:
  "2 < length (all_mnemosyne_blocks
      [PDict [(''role'', PStr ''user''), (''content'',
         PStr ''<Mnemosyne>A</Mnemosyne><Mnemosyne>B</Mnemosyne><Mnemosyne>B</Mnemosyne>'')]]) \<and>
   spec_most_recent_distinct 2 (all_mnemosyne_blocks
      [PDict [(''role'', PStr ''user''), (''content'',
         PStr ''<Mnemosyne>A</Mnemosyne><Mnemosyne>B</Mnemosyne><Mnemosyne>B</Mnemosyne>'')]]) =
     [''<Mnemosyne>B</Mnemosyne>'', ''<Mnemosyne>A</Mnemosyne>''] \<and>
   remove_mnemosyne_tags
      [PDict [(''role'', PStr ''user''), (''content'',
         PStr ''<Mnemosyne>A</Mnemosyne><Mnemosyne>B</Mnemosyne><Mnemosyne>B</Mnemosyne>'')]] 2 =
     [PDict [(''role'', PStr ''user''), (''content'',
         PStr ''<Mnemosyne>B</Mnemosyne><Mnemosyne>B</Mnemosyne>'')]]"
  by code_simp

text \<open>
  C3 at a multi-part user message that carries a \<^verbatim>\<open>name\<close>, with budget 1: the list
  branch builds a new dict of \<^verbatim>\<open>role\<close> and \<^verbatim>\<open>content\<close>, so the \<^verbatim>\<open>name\<close> is gone
  from the result, although the content itself is the same.
\<close>

theorem multipart_message_loses_keys:
  "remove_mnemosyne_tags
     [PDict [(''role'', PStr ''user''), (''name'', PStr ''bob''),
             (''content'', PList [PDict [(''type'', PStr ''text''), (''text'', PStr ''hi'')]])]] 1 =
     [PDict [(''role'', PStr ''user''),
             (''content'', PList [PDict [(''type'', PStr ''text''), (''text'', PStr ''hi'')]])]]"
  by (simp add: remove_mnemosyne_tags_def get_content_def dict_get_def user_message_def)

text \<open>
  C7, as the code has it. For the budget 0 the result has as many messages as the
  input; a message that is not a user-role message
  is the same in the result; in a user-role plain-text message the text is its pieces
  and blocks in turn, the result is the pieces alone, joined, and no piece holds a
  block by itself.
\<close>

theorem erase_all_blocks:
  assumes "i < length contents"
  shows "length (remove_mnemosyne_tags contents 0) = length contents \<and>
         (\<not> is_user (contents ! i) \<longrightarrow> remove_mnemosyne_tags contents 0 ! i = contents ! i) \<and>
         (contents ! i = PDict d \<and> is_user (PDict d) \<and> get_content d = PStr text \<longrightarrow>
            text = weave (seg_gaps (regex_scan text)) (re_findall text) \<and>
            remove_mnemosyne_tags contents 0 ! i =
              user_message (PStr (concat (seg_gaps (regex_scan text)))) \<and>
            (\<forall>g \<in> set (seg_gaps (regex_scan text)). \<not> re_search g))"
proof -
  have "clean_all m = m" if "\<not> is_user m" for m
    using that by (cases m) auto
  moreover have "re_sub (\<lambda>_. []) text = concat (seg_gaps (regex_scan text))"
    by (simp add: re_sub_weave weave_erased)
  ultimately show ?thesis
    using assms
    by (auto simp: remove_tags_zero_nth text_weave gap_has_no_block length_remove_mnemosyne_tags)
qed

theorem erase_all_blocks_witness:
  "remove_mnemosyne_tags
     [PDict [(''role'', PStr ''assistant''), (''content'', PStr ''<Mnemosyne>A</Mnemosyne>'')],
      PDict [(''role'', PStr ''user''), (''content'', PStr ''a<Mnemosyne>A</Mnemosyne>b'')]] 0 =
     [PDict [(''role'', PStr ''assistant''), (''content'', PStr ''<Mnemosyne>A</Mnemosyne>'')],
      PDict [(''role'', PStr ''user''), (''content'', PStr ''ab'')]] \<and>
   seg_gaps (regex_scan ''a<Mnemosyne>A</Mnemosyne>b'') = [''a'', ''b''] \<and>
   \<not> re_search ''a'' \<and> \<not> re_search ''b''"
proof -
  let ?a = "PDict [(''role'', PStr ''assistant''), (''content'', PStr ''<Mnemosyne>A</Mnemosyne>'')]"
  let ?d = "[(''role'', PStr ''user''), (''content'', PStr ''a<Mnemosyne>A</Mnemosyne>b'')]"
  let ?t = "''a<Mnemosyne>A</Mnemosyne>b''"
  have g: "seg_gaps (regex_scan ?t) = [''a'', ''b'']"
    by code_simp
  have c: "get_content ?d = PStr ?t"
    by (simp add: get_content_def dict_get_def)
  have len: "length (remove_mnemosyne_tags [?a, PDict ?d] 0) = 2"
    by (simp add: length_remove_mnemosyne_tags)
  have n0: "remove_mnemosyne_tags [?a, PDict ?d] 0 ! 0 = ?a"
    using erase_all_blocks [of 0 "[?a, PDict ?d]"] by simp
  have n1: "remove_mnemosyne_tags [?a, PDict ?d] 0 ! 1 = user_message (PStr ''ab'') \<and>
            (\<forall>g \<in> set [''a'', ''b'']. \<not> re_search g)"
    using erase_all_blocks [of 1 "[?a, PDict ?d]" ?d ?t] c g by simp
  from len n0 n1 have "remove_mnemosyne_tags [?a, PDict ?d] 0 = [?a, user_message (PStr ''ab'')]"
    by (auto simp: list_eq_iff_nth_eq less_Suc_eq numeral_2_eq_2)
  with n1 g show ?thesis
    by (simp add: user_message_def)
qed

text \<open>
  Joining the pieces can form a block that was not there: erasing the inner block of
  \<^verbatim>\<open><Mnemo<Mnemosyne>x</Mnemosyne>syne>y</Mnemosyne>\<close> leaves a whole block.
\<close>

theorem erase_all_blocks_counterexample:
  "is_user (PDict [(''role'', PStr ''user''),
       (''content'', PStr ''<Mnemo<Mnemosyne>x</Mnemosyne>syne>y</Mnemosyne>'')]) \<and>
   remove_mnemosyne_tags
     [PDict [(''role'', PStr ''user''),
       (''content'', PStr ''<Mnemo<Mnemosyne>x</Mnemosyne>syne>y</Mnemosyne>'')]] 0 =
     [PDict [(''role'', PStr ''user''), (''content'', PStr ''<Mnemosyne>y</Mnemosyne>'')]] \<and>
   re_findall ''<Mnemosyne>y</Mnemosyne>'' = [''<Mnemosyne>y</Mnemosyne>'']"
  by code_simp

text \<open>
  C9: a user-role message with string content is replaced by a new dict with exactly
  the keys \<^verbatim>\<open>role\<close> and \<^verbatim>\<open>content\<close> when the budget is 0, and when the budget is
  positive and the text holds a block; with a positive budget and no block the
  message itself is kept.
\<close>

theorem string_message_rebuilt:
  assumes "i < length contents" and "contents ! i = PDict d" and "is_user (PDict d)"
    and "get_content d = PStr text"
  shows "(K = 0 \<longrightarrow> remove_mnemosyne_tags contents K ! i =
            PDict [(''role'', PStr ''user''), (''content'', PStr (re_sub (\<lambda>_. []) text))]) \<and>
         (0 < K \<and> re_search text \<longrightarrow> remove_mnemosyne_tags contents K ! i =
            PDict [(''role'', PStr ''user''),
                   (''content'', PStr (re_sub (replace_logic
                      (blocks_to_keep K (all_mnemosyne_blocks contents))) text))]) \<and>
         (0 < K \<and> \<not> re_search text \<longrightarrow> remove_mnemosyne_tags contents K ! i = contents ! i)"
  using assms by (simp add: remove_mnemosyne_tags_def user_message_def)

theorem string_message_rebuilt_witness:
  "remove_mnemosyne_tags
     [PDict [(''role'', PStr ''user''), (''name'', PStr ''bob''),
             (''content'', PStr ''<Mnemosyne>A</Mnemosyne> hi'')]] 0 ! 0 =
     PDict [(''role'', PStr ''user''), (''content'', PStr '' hi'')] \<and>
   remove_mnemosyne_tags
     [PDict [(''role'', PStr ''user''), (''name'', PStr ''bob''),
             (''content'', PStr ''<Mnemosyne>A</Mnemosyne> hi'')]] 1 ! 0 =
     PDict [(''role'', PStr ''user''), (''content'', PStr ''<Mnemosyne>A</Mnemosyne> hi'')] \<and>
   remove_mnemosyne_tags
     [PDict [(''role'', PStr ''user''), (''name'', PStr ''bob''), (''content'', PStr ''hi'')]] 1 ! 0 =
     PDict [(''role'', PStr ''user''), (''name'', PStr ''bob''), (''content'', PStr ''hi'')]"
proof -
  let ?d1 = "[(''role'', PStr ''user''), (''name'', PStr ''bob''),
              (''content'', PStr ''<Mnemosyne>A</Mnemosyne> hi'')]"
  let ?d2 = "[(''role'', PStr ''user''), (''name'', PStr ''bob''), (''content'', PStr ''hi'')]"
  have c1: "get_content ?d1 = PStr ''<Mnemosyne>A</Mnemosyne> hi''"
    and c2: "get_content ?d2 = PStr ''hi''"
    by (simp_all add: get_content_def dict_get_def)
  have u1: "is_user (PDict ?d1)" and u2: "is_user (PDict ?d2)"
    by simp_all
  have e0: "re_sub (\<lambda>_. []) ''<Mnemosyne>A</Mnemosyne> hi'' = '' hi''"
    by code_simp
  have s1: "re_search ''<Mnemosyne>A</Mnemosyne> hi''"
    by code_simp
  have e1: "re_sub (replace_logic (blocks_to_keep 1 (all_mnemosyne_blocks [PDict ?d1])))
              ''<Mnemosyne>A</Mnemosyne> hi'' = ''<Mnemosyne>A</Mnemosyne> hi''"
    by code_simp
  have s2: "\<not> re_search ''hi''"
    by code_simp
  show ?thesis
    using string_message_rebuilt [of 0 "[PDict ?d1]" ?d1 "''<Mnemosyne>A</Mnemosyne> hi''" 0, OF _ _ u1 c1]
      string_message_rebuilt [of 0 "[PDict ?d1]" ?d1 "''<Mnemosyne>A</Mnemosyne> hi''" 1, OF _ _ u1 c1]
      string_message_rebuilt [of 0 "[PDict ?d2]" ?d2 "''hi''" 1, OF _ _ u2 c2]
      e0 s1 e1 s2
    by simp
qed

section \<open>System messages\<close>

text \<open>
  C10: \<^verbatim>\<open>remove_system_content\<close> answers a value that is not a list with the empty
  list, whatever the budget, and returns a list unchanged when the budget is negative.
\<close>

theorem remove_system_content_guards:
  "((\<forall>msgs. contents \<noteq> PList msgs) \<longrightarrow> remove_system_content contents K = PList []) \<and>
   (K < 0 \<longrightarrow> remove_system_content (PList msgs) K = PList msgs)"
  by (cases contents) simp_all

theorem remove_system_content_guards_witness:
  "remove_system_content (PStr ''hello'') 3 = PList [] \<and>
   remove_system_content (PList [PDict [(''role'', PStr ''system''), (''content'', PStr ''s'')]]) (- 1) =
     PList [PDict [(''role'', PStr ''system''), (''content'', PStr ''s'')]]"
  using remove_system_content_guards [of "PStr ''hello''" 3]
    remove_system_content_guards [of _ "- 1" "[PDict [(''role'', PStr ''system''), (''content'', PStr ''s'')]]"]
  by simp

section \<open>Session state\<close>

text \<open>
  C8: for a session the tracker does not know, \<^verbatim>\<open>get_summary_time\<close> returns 0, which
  is not negative, and \<^verbatim>\<open>update_summary_time\<close> leaves the tracker as it was.
\<close>

theorem unknown_session_summary_time:
  assumes "session_id \<notin> dom (conversations self)"
  shows "get_summary_time self session_id = 0 \<and> \<not> get_summary_time self session_id < 0 \<and>
         update_summary_time now self session_id = self"
  using assms by (auto simp: get_summary_time_def update_summary_time_def dom_def)

theorem unknown_session_summary_time_witness:
  "''s2'' \<notin> dom (conversations \<lparr>conversations = [''s1'' \<mapsto> \<lparr>event = None :: unit option, last_summary_time = 5\<rparr>]\<rparr>) \<and>
   get_summary_time \<lparr>conversations = [''s1'' \<mapsto> \<lparr>event = None :: unit option, last_summary_time = 5\<rparr>]\<rparr> ''s2'' = 0 \<and>
   update_summary_time 9 \<lparr>conversations = [''s1'' \<mapsto> \<lparr>event = None :: unit option, last_summary_time = 5\<rparr>]\<rparr> ''s2'' =
     \<lparr>conversations = [''s1'' \<mapsto> \<lparr>event = None :: unit option, last_summary_time = 5\<rparr>]\<rparr>"
proof -
  have h: "''s2'' \<notin> dom (conversations \<lparr>conversations = [''s1'' \<mapsto> \<lparr>event = None :: unit option, last_summary_time = 5\<rparr>]\<rparr>)"
    by simp
  show ?thesis
    using h unknown_session_summary_time [OF h, of 9] by simp
qed

section \<open>Migration\<close>

text \<open>
  C5: when the run gets as far as comparing the dimensions and the collection's
  dimension equals the provider's, the command ends with the reply that no migration
  is needed and has made no call that changes the store: no drop, no create, no insert,
  no flush.
\<close>

theorem same_dimension_no_store_change:
  assumes "compares_dims e d (PInt d)"
  shows "init_memory_system_cmd_impl e force =
           Some \<lparr>replies = [NoMigrationNeeded d], calls = []\<rparr>"
  using init_at_compare [OF assms, of force] by simp

theorem same_dimension_no_store_change_witness:
  "compares_dims (demo_env\<lparr>embedding_dim := PInt 3\<rparr>) 3 (PInt 3) \<and>
   init_memory_system_cmd_impl (demo_env\<lparr>embedding_dim := PInt 3\<rparr>) (Some ''--force'') =
     Some \<lparr>replies = [NoMigrationNeeded 3], calls = []\<rparr>"
proof -
  have h: "compares_dims (demo_env\<lparr>embedding_dim := PInt 3\<rparr>) 3 (PInt 3)"
    by (simp add: compares_dims_def demo_env_def connect_def probe_dim_def dict_get_def)
  show ?thesis
    using h same_dimension_no_store_change [OF h, of "Some ''--force''"] by simp
qed

text \<open>
  C4: when the export has returned and writing the backup fails, the command ends with
  the reply that the backup failed and has made no call that changes the store: the
  old collection is not dropped, and nothing is created or inserted.
\<close>

theorem backup_failure_aborts:
  assumes "compares_dims e d old_dim" and "old_dim \<noteq> PInt d"
    and "plugin_data_dir e" and "mkdir_backups e"
    and "export_loop (query e) [] 0 = Some (Returns all_records)"
    and "\<not> write_backup e all_records"
  shows "init_memory_system_cmd_impl e (Some ''--force'') =
           Some \<lparr>replies = [MigrationStarted old_dim d, Exporting, BackupFailed], calls = []\<rparr>"
  using init_at_compare [OF assms(1), of "Some ''--force''"] assms(2-)
  by (simp add: migrate_def say_def)

theorem backup_failure_aborts_witness:
  "export_loop (query (demo_env\<lparr>write_backup := \<lambda>_. False\<rparr>)) [] 0 = Some (Returns demo_records) \<and>
   init_memory_system_cmd_impl (demo_env\<lparr>write_backup := \<lambda>_. False\<rparr>) (Some ''--force'') =
     Some \<lparr>replies = [MigrationStarted (PInt 3) 4, Exporting, BackupFailed], calls = []\<rparr>"
proof -
  let ?e = "demo_env\<lparr>write_backup := \<lambda>_. False\<rparr>"
  have c: "compares_dims ?e 4 (PInt 3)"
    by (simp add: compares_dims_def demo_env_def connect_def probe_dim_def dict_get_def)
  have pd: "PInt 3 \<noteq> PInt 4" by simp
  have x: "export_loop (query ?e) [] 0 = Some (Returns demo_records)"
    using demo_export by (simp add: demo_env_def)
  have others: "plugin_data_dir ?e" "mkdir_backups ?e" "\<not> write_backup ?e demo_records"
    by (simp_all add: demo_env_def)
  show ?thesis
    using x backup_failure_aborts [OF c pd others(1,2) x others(3)] by simp
qed

text \<open>
  C2, as the code has it. When at least one record was exported and the collection was
  dropped and created again, the numbers of the final report add up to the number of
  exported records that the loop does not skip, which are those with a non-empty
  content (and those that are no dict, counted as failures); the flush is called
  exactly once, after the inserts. The final report is the last reply when the flush
  returns.
\<close>

theorem migration_report_counts:
  assumes "compares_dims e d old_dim" and "old_dim \<noteq> PInt d"
    and "plugin_data_dir e" and "mkdir_backups e"
    and "export_loop (query e) [] 0 = Some (Returns all_records)"
    and "write_backup e all_records"
    and "drop_collection e = Returns True" and "create_collection e = Returns ()"
    and "all_records \<noteq> []"
  shows "let st = reembed_loop e (length all_records) 0 all_records
                    \<lparr>success_count = 0, fail_count = 0, progress = [], inserts = []\<rparr>;
             store_calls = [DropCollection, CreateCollection d] @ inserts st @ [Flush]
         in init_memory_system_cmd_impl e (Some ''--force'') =
              Some \<lparr>replies =
                      [MigrationStarted old_dim d, Exporting, BackupWritten (length all_records),
                       Dropped, Created d, Reembedding (length all_records)] @ progress st @
                      [case flush e of
                         Returns _ \<Rightarrow> MigrationDone (success_count st) (fail_count st) d
                       | Raises \<Rightarrow> InitFailed],
                    calls = store_calls\<rparr> \<and>
            success_count st + fail_count st = length (filter counted all_records) \<and>
            count_list store_calls Flush = 1"
proof -
  let ?st = "reembed_loop e (length all_records) 0 all_records
               \<lparr>success_count = 0, fail_count = 0, progress = [], inserts = []\<rparr>"
  have run: "init_memory_system_cmd_impl e (Some ''--force'') =
      Some (drop_and_reinsert e d all_records
        \<lparr>replies = [MigrationStarted old_dim d, Exporting, BackupWritten (length all_records)],
         calls = []\<rparr>)"
    using init_at_compare [OF assms(1), of "Some ''--force''"] assms(2-6)
    by (simp add: migrate_def say_def)
  have sum: "success_count ?st + fail_count ?st = length (filter counted all_records)"
    using reembed_loop_counts [of e "length all_records" 0 all_records
        "\<lparr>success_count = 0, fail_count = 0, progress = [], inserts = []\<rparr>"]
    by simp
  have nofl: "count_list (inserts ?st) Flush = 0"
    using reembed_loop_no_flush [of e "length all_records" 0 all_records
        "\<lparr>success_count = 0, fail_count = 0, progress = [], inserts = []\<rparr>"]
    by simp
  have result: "drop_and_reinsert e d all_records
        \<lparr>replies = [MigrationStarted old_dim d, Exporting, BackupWritten (length all_records)],
         calls = []\<rparr> =
      \<lparr>replies =
         [MigrationStarted old_dim d, Exporting, BackupWritten (length all_records),
          Dropped, Created d, Reembedding (length all_records)] @ progress ?st @
         [case flush e of
            Returns _ \<Rightarrow> MigrationDone (success_count ?st) (fail_count ?st) d
          | Raises \<Rightarrow> InitFailed],
       calls = [DropCollection, CreateCollection d] @ inserts ?st @ [Flush]\<rparr>"
    using assms(7-9)
    by (cases "flush e") (simp_all add: drop_and_reinsert_def say_def call_def Let_def)
  show ?thesis
    unfolding Let_def using run result sum nofl by simp
qed

theorem migration_report_counts_witness:
  "init_memory_system_cmd_impl demo_env (Some ''--force'') =
     Some \<lparr>replies = [MigrationStarted (PInt 3) 4, Exporting, BackupWritten 3, Dropped, Created 4,
                      Reembedding 3, MigrationDone 1 1 4],
           calls = [DropCollection, CreateCollection 4,
                    Insert (PDict [(''personality_id'', PStr []), (''session_id'', PStr ''s1''),
                      (''content'', PStr ''hello''), (''embedding'', PList [PInt 1]),
                      (''create_time'', PInt 7)]),
                    Flush]\<rparr> \<and>
   length (filter counted demo_records) = 2 \<and> length demo_records = 3"
proof -
  have pd: "PInt 3 \<noteq> PInt 4" by simp
  have others: "plugin_data_dir demo_env" "mkdir_backups demo_env" "write_backup demo_env demo_records"
    "drop_collection demo_env = Returns True" "create_collection demo_env = Returns ()"
    "demo_records \<noteq> []" "flush demo_env = Returns ()"
    by (simp_all add: demo_env_def demo_records_def)
  have len: "length demo_records = 3"
    by (simp add: demo_records_def)
  show ?thesis
    using migration_report_counts [OF demo_compares pd others(1,2) demo_export others(3-6)]
    by (simp add: Let_def len demo_loop others(7))
qed

text \<open>
  One exported record with an empty content: the loop skips it, the report says 0
  successes and 0 failures, and 1 record was exported.
\<close>

theorem migration_report_counterexample:
  "export_loop (query (demo_env\<lparr>query := \<lambda>offset.
        if offset = 0 then Returns (Some [PDict [(''content'', PStr [])]]) else Returns None\<rparr>)) [] 0 =
     Some (Returns [PDict [(''content'', PStr [])]]) \<and>
   init_memory_system_cmd_impl (demo_env\<lparr>query := \<lambda>offset.
        if offset = 0 then Returns (Some [PDict [(''content'', PStr [])]]) else Returns None\<rparr>)
      (Some ''--force'') =
     Some \<lparr>replies = [MigrationStarted (PInt 3) 4, Exporting, BackupWritten 1, Dropped, Created 4,
                      Reembedding 1, MigrationDone 0 0 4],
           calls = [DropCollection, CreateCollection 4, Flush]\<rparr> \<and>
   (0::nat) + 0 \<noteq> length [PDict [(''content'', PStr [])]]"
proof -
  let ?q = "\<lambda>offset::nat.
        if offset = 0 then Returns (Some [PDict [(''content'', PStr [])]]) else Returns None"
  have x: "export_loop ?q [] 0 = Some (Returns [PDict [(''content'', PStr [])]])"
    by (subst export_loop.simps) (simp add: batch_size_def)
  then show ?thesis
    by (simp add: init_memory_system_cmd_impl_def migrate_def drop_and_reinsert_def demo_env_def
        connect_def probe_dim_def dict_get_def say_def call_def Let_def)
qed

section \<open>Listing\<close>

text \<open>
  C6, as the code has it. For a fetched set that is not empty, below the ceiling, whose
  \<^verbatim>\<open>create_time\<close> values are integers, \<^verbatim>\<open>None\<close> or missing, whose records the
  rendering loop can turn into entries (a string content, a \<^verbatim>\<open>create_time\<close> inside the
  platform's range), and a limit from 1 to 50, the command lists the entries of the
  first \<open>limit\<close> records of the fetched records sorted by \<^verbatim>\<open>create_time\<close>: the same
  records, each key at least the next one, records with equal keys in the order they
  were fetched, the key of an integer \<^verbatim>\<open>create_time\<close> being that integer and a missing
  or \<^verbatim>\<open>None\<close> \<^verbatim>\<open>create_time\<close> read as 0.
\<close>

theorem list_latest_sorted:
  assumes "fetches e collection_name fetched_records"
    and "fetched_records \<noteq> []"
    and "length fetched_records < max_total_fetch_records e"
    and "0 < limit" and "limit \<le> 50"
    and "list_all (\<lambda>x. create_time_key x \<noteq> None) fetched_records"
    and "list_all (renders e) fetched_records"
  shows "(\<exists>response_lines.
            render_records e 1 (take (nat limit) (sort_reverse time_key fetched_records)) =
              Returns response_lines \<and>
            length response_lines = min (nat limit) (length fetched_records) \<and>
            list_records_cmd_impl e collection_name limit =
              [Listing (length fetched_records) response_lines]) \<and>
         mset (sort_reverse time_key fetched_records) = mset fetched_records \<and>
         sorted_wrt (\<lambda>a b. time_key b \<le> time_key a) (sort_reverse time_key fetched_records) \<and>
         (\<forall>k. filter (\<lambda>x. time_key x = k) (sort_reverse time_key fetched_records) =
               filter (\<lambda>x. time_key x = k) fetched_records) \<and>
         (\<forall>x t. map_of x ''create_time'' = Some (PInt t) \<longrightarrow> time_key (PDict x) = t) \<and>
         (\<forall>x. map_of x ''create_time'' = None \<or> map_of x ''create_time'' = Some PNone \<longrightarrow>
               time_key (PDict x) = 0)"
proof -
  let ?shown = "take (nat limit) (sort_reverse time_key fetched_records)"
  have "set ?shown \<subseteq> set fetched_records"
    using set_take_subset [of "nat limit" "sort_reverse time_key fetched_records"]
    by (simp add: set_sort_reverse)
  with assms(7) have "list_all (renders e) ?shown"
    by (auto simp: list_all_iff)
  then obtain response_lines where
    r: "render_records e 1 ?shown = Returns response_lines"
    and l: "length response_lines = length ?shown"
    using render_records_ok [of e ?shown 1] by auto
  have len: "length (sort_reverse time_key fetched_records) = length fetched_records"
    by (simp add: sort_reverse_def)
  have run: "list_records_cmd_impl e collection_name limit =
      [Listing (length fetched_records) response_lines]"
    using assms(1-6) r
    by (auto simp: list_records_cmd_impl_def fetches_def sort_fetched_def Let_def
        split: outcome.splits option.splits if_splits)
  have first: "\<exists>response_lines.
      render_records e 1 ?shown = Returns response_lines \<and>
      length response_lines = min (nat limit) (length fetched_records) \<and>
      list_records_cmd_impl e collection_name limit =
        [Listing (length fetched_records) response_lines]"
    using r l run len by (auto simp: min_def)
  have missing: "time_key (PDict x) = 0"
    if "map_of x ''create_time'' = None \<or> map_of x ''create_time'' = Some PNone" for x
    using time_key_missing [OF that] by (simp add: time_key_def)
  show ?thesis
    using first missing
    by (simp add: sort_reverse_mset sort_reverse_descending sort_reverse_stable
        time_key_integer)
qed

theorem list_latest_sorted_witness:
  "list_records_cmd_impl
     (demo_list_env
        [PDict [(''content'', PStr ''a''), (''create_time'', PInt 5)],
         PDict [(''content'', PStr ''b'')],
         PDict [(''content'', PStr ''c''), (''create_time'', PInt 9)],
         PDict [(''content'', PStr ''d''), (''create_time'', PNone)]]) None 3 =
     [Listing 4
        [\<lparr>line_number = 1, line_id = PStr unknown_id, line_time = FormattedTime ''local time'',
          line_persona = PStr unknown_persona, line_session = PStr unknown_session,
          line_preview = ''c''\<rparr>,
         \<lparr>line_number = 2, line_id = PStr unknown_id, line_time = FormattedTime ''local time'',
          line_persona = PStr unknown_persona, line_session = PStr unknown_session,
          line_preview = ''a''\<rparr>,
         \<lparr>line_number = 3, line_id = PStr unknown_id, line_time = UnknownTime,
          line_persona = PStr unknown_persona, line_session = PStr unknown_session,
          line_preview = ''b''\<rparr>]]"
proof -
  let ?recs = "[PDict [(''content'', PStr ''a''), (''create_time'', PInt 5)],
         PDict [(''content'', PStr ''b'')],
         PDict [(''content'', PStr ''c''), (''create_time'', PInt 9)],
         PDict [(''content'', PStr ''d''), (''create_time'', PNone)]]"
  let ?e = "demo_list_env ?recs"
  have f: "fetches ?e None ?recs"
    by (simp add: fetches_def demo_list_env_def)
  have m: "length ?recs < max_total_fetch_records ?e"
    by (simp add: demo_list_env_def)
  have k: "list_all (\<lambda>x. create_time_key x \<noteq> None) ?recs"
    by (simp add: dict_get_def)
  have rn: "list_all (renders ?e) ?recs"
    by (simp add: dict_get_def demo_list_env_def)
  have s: "take (nat 3) (sort_reverse time_key ?recs) =
      [PDict [(''content'', PStr ''c''), (''create_time'', PInt 9)],
       PDict [(''content'', PStr ''a''), (''create_time'', PInt 5)],
       PDict [(''content'', PStr ''b'')]]"
    by (simp add: sort_reverse_def time_key_def dict_get_def numeral_3_eq_3)
  have shown: "render_records ?e 1
      [PDict [(''content'', PStr ''c''), (''create_time'', PInt 9)],
       PDict [(''content'', PStr ''a''), (''create_time'', PInt 5)],
       PDict [(''content'', PStr ''b'')]] =
      Returns
        [\<lparr>line_number = 1, line_id = PStr unknown_id, line_time = FormattedTime ''local time'',
          line_persona = PStr unknown_persona, line_session = PStr unknown_session,
          line_preview = ''c''\<rparr>,
         \<lparr>line_number = 2, line_id = PStr unknown_id, line_time = FormattedTime ''local time'',
          line_persona = PStr unknown_persona, line_session = PStr unknown_session,
          line_preview = ''a''\<rparr>,
         \<lparr>line_number = 3, line_id = PStr unknown_id, line_time = UnknownTime,
          line_persona = PStr unknown_persona, line_session = PStr unknown_session,
          line_preview = ''b''\<rparr>]"
    by (simp add: dict_get_def demo_list_env_def char_count_def is_continuation_def)
  have "\<exists>response_lines.
      render_records ?e 1 (take (nat 3) (sort_reverse time_key ?recs)) = Returns response_lines \<and>
      length response_lines = min (nat 3) (length ?recs) \<and>
      list_records_cmd_impl ?e None 3 = [Listing (length ?recs) response_lines]"
    using list_latest_sorted [OF f _ m _ _ k rn, of 3] by simp
  then show ?thesis
    unfolding s shown by auto
qed

text \<open>
  Two records with the same \<^verbatim>\<open>create_time\<close> are listed one after the other: the
  order is descending, but not strictly.
\<close>

theorem list_latest_strict_counterexample:
  "list_records_cmd_impl
     (demo_list_env
        [PDict [(''content'', PStr ''a''), (''create_time'', PInt 5)],
         PDict [(''content'', PStr ''b''), (''create_time'', PInt 5)]]) None 5 =
     [Listing 2
        [\<lparr>line_number = 1, line_id = PStr unknown_id, line_time = FormattedTime ''local time'',
          line_persona = PStr unknown_persona, line_session = PStr unknown_session,
          line_preview = ''a''\<rparr>,
         \<lparr>line_number = 2, line_id = PStr unknown_id, line_time = FormattedTime ''local time'',
          line_persona = PStr unknown_persona, line_session = PStr unknown_session,
          line_preview = ''b''\<rparr>]] \<and>
   sort_reverse time_key
        [PDict [(''content'', PStr ''a''), (''create_time'', PInt 5)],
         PDict [(''content'', PStr ''b''), (''create_time'', PInt 5)]] =
        [PDict [(''content'', PStr ''a''), (''create_time'', PInt 5)],
         PDict [(''content'', PStr ''b''), (''create_time'', PInt 5)]] \<and>
   \<not> sorted_wrt (\<lambda>a b. time_key b < time_key a)
        [PDict [(''content'', PStr ''a''), (''create_time'', PInt 5)],
         PDict [(''content'', PStr ''b''), (''create_time'', PInt 5)]]"
  by (simp add: list_records_cmd_impl_def demo_list_env_def sort_fetched_def sort_reverse_def
      time_key_def dict_get_def Let_def char_count_def is_continuation_def)

text \<open>
  The other way out of the rendering loop: a record whose content is \<^verbatim>\<open>None\<close> meets
  every condition on the sort, and the command answers with the internal error.
\<close>

lemma list_records_render_failure:
  "list_records_cmd_impl
     (demo_list_env [PDict [(''content'', PNone), (''create_time'', PInt 5)]]) None 5 =
     [InternalError]"
  by (simp add: list_records_cmd_impl_def demo_list_env_def sort_fetched_def sort_reverse_def
      time_key_def dict_get_def Let_def)

end
